theory Spec2Isabelle
  imports Main
begin

section \<open>Byte strings and the string helpers the program calls\<close>

text \<open>
  A Go string is a sequence of bytes, which is what \<open>string\<close> (a list of 8-bit
  characters) is.  The program calls \<open>strings.TrimSpace\<close>, \<open>strings.Contains\<close>,
  \<open>strings.Split\<close> and \<open>strings.SplitN\<close> of the Go standard library.  They are
  modelled here on bytes: white space is the ASCII white space of the library's
  fast path (tab, line feed, vertical tab, form feed, carriage return, blank);
  the multi-byte Unicode blanks that the library also trims are not modelled.
  Both call sites of the splitting functions pass a one-byte separator, so the
  separator is a single character.
\<close>

definition LF :: char where
  "LF = CHR 0x0A"

definition isSpace :: "char \<Rightarrow> bool" where
  "isSpace c = (c = CHR 0x09 \<or> c = CHR 0x0A \<or> c = CHR 0x0B \<or> c = CHR 0x0C
                \<or> c = CHR 0x0D \<or> c = CHR 0x20)"

definition TrimSpace :: "string \<Rightarrow> string" where
  "TrimSpace s = rev (dropWhile isSpace (rev (dropWhile isSpace s)))"

definition HasPrefix :: "string \<Rightarrow> string \<Rightarrow> bool" where
  "HasPrefix s p = (length p \<le> length s \<and> take (length p) s = p)"

fun Contains :: "string \<Rightarrow> string \<Rightarrow> bool" where
  "Contains [] substr = (substr = [])"
| "Contains (x # xs) substr = (HasPrefix (x # xs) substr \<or> Contains xs substr)"

fun IndexByte :: "string \<Rightarrow> char \<Rightarrow> nat option" where
  "IndexByte [] c = None"
| "IndexByte (x # xs) c = (if x = c then Some 0 else map_option Suc (IndexByte xs c))"

definition Count :: "string \<Rightarrow> char \<Rightarrow> nat" where
  "Count s sep = length (filter (\<lambda>c. c = sep) s)"

text \<open>
  \<open>genSplit s sep k\<close> is the loop of the library's \<open>genSplit\<close>: it cuts at the first
  \<open>k\<close> separators and leaves the rest of the string whole as the last piece.
\<close>

fun genSplit :: "string \<Rightarrow> char \<Rightarrow> nat \<Rightarrow> string list" where
  "genSplit s sep 0 = [s]"
| "genSplit s sep (Suc k) =
     (case IndexByte s sep of
        None \<Rightarrow> [s]
      | Some m \<Rightarrow> take m s # genSplit (drop (Suc m) s) sep k)"

definition SplitN :: "string \<Rightarrow> char \<Rightarrow> int \<Rightarrow> string list" where
  "SplitN s sep n =
     (if n = 0 then []
      else if n < 0 then genSplit s sep (Count s sep)
      else genSplit s sep (nat (min n (int (length s) + 1)) - 1))"

definition Split :: "string \<Rightarrow> char \<Rightarrow> string list" where
  "Split s sep = SplitN s sep (- 1)"

section \<open>Search results and messages\<close>

record Item =
  fileName :: string
  lineNum :: string
  content :: string
  fullPath :: string

text \<open>
  The messages the update function receives.  A Go \<open>error\<close> value is modelled by
  its message text, \<open>None\<close> standing for \<open>nil\<close>.  \<open>KeyMsg\<close> carries the key's
  name as \<open>msg.String()\<close> gives it; \<open>OtherMsg\<close> stands for every message of the
  widget library (cursor blink, spinner tick, ...).
\<close>

datatype msg =
    KeyMsg string
  | searchFinishedMsg "Item list" "string option"
  | fileLoadedMsg string "string option"
  | WindowSizeMsg int int
  | OtherMsg nat

section \<open>The outside world of the two commands\<close>

text \<open>
  A finished external process: its combined output and the error of
  \<open>cmd.CombinedOutput()\<close> (\<open>None\<close> for exit status 0).  The environment answers
  every command line with such a result and every path with the file's bytes or
  the error of opening or reading it; \<open>Render\<close> is the styling function of the
  terminal library.  Each command returns, next to its message, the list of
  command lines it has run, in order.
\<close>

record cmd_result =
  cmd_output :: string
  cmd_err :: "string option"

record os_env =
  CombinedOutput :: "string list \<Rightarrow> cmd_result"
  ReadFile :: "string \<Rightarrow> string + string"
  Render :: "string \<Rightarrow> string"

section \<open>executeRipgrep\<close>

definition rg_argv :: "string \<Rightarrow> string \<Rightarrow> string list" where
  "rg_argv pattern path =
     [''rg'', ''--line-number'', ''--color'', ''never'', ''--no-heading'',
      ''--with-filename'', pattern, path]"

text \<open>The body of the loop over the output lines, with \<open>results\<close> as accumulator.\<close>

definition parseLine :: "Item list \<Rightarrow> string \<Rightarrow> Item list" where
  "parseLine results line =
     (if TrimSpace line = [] then results
      else let parts = SplitN line (CHR '':'') 3 in
        if length parts < 3 then results
        else results @
          [\<lparr>fileName = TrimSpace (parts ! 0),
            lineNum = TrimSpace (parts ! 1),
            content = TrimSpace (parts ! 2),
            fullPath = TrimSpace (parts ! 0)\<rparr>])"

definition parseOutput :: "string \<Rightarrow> Item list" where
  "parseOutput out = foldl parseLine [] (Split out LF)"

definition executeRipgrep :: "os_env \<Rightarrow> string \<Rightarrow> string \<Rightarrow> msg \<times> string list list" where
  "executeRipgrep E pattern path =
     (if pattern = [] then (searchFinishedMsg [] (Some ''empty search pattern''), [])
      else
        let r = CombinedOutput E (rg_argv pattern path);
            parsed = (searchFinishedMsg (parseOutput (cmd_output r)) None,
                      [rg_argv pattern path])
        in
        if cmd_err r \<noteq> None then
          if Contains (cmd_output r) ''No such file or directory''
          then (searchFinishedMsg [] (Some (''directory not found: '' @ path)),
                [rg_argv pattern path])
          else if TrimSpace (cmd_output r) = []
          then (searchFinishedMsg [] None, [rg_argv pattern path])
          else parsed
        else parsed)"

section \<open>loadFile\<close>

text \<open>
  \<open>fmt.Sscanf(lineNum, "%d", &lineNumInt)\<close> of the Go standard library, on
  bytes: leading white space is skipped (a line feed there is an error), one
  sign is accepted, then the longest run of digits and underscores is taken as
  the token, which must not be empty; the text after the token is ignored.  The
  token is converted by \<open>strconv.ParseInt\<close> in base 10, which rejects an
  underscore and a value outside the 64-bit range of \<open>int\<close>.  \<open>None\<close> is a
  non-nil error.
\<close>

fun SkipSpace :: "string \<Rightarrow> string option" where
  "SkipSpace [] = Some []"
| "SkipSpace (r # rs) =
     (if r = LF then None
      else if isSpace r then SkipSpace rs
      else Some (r # rs))"

definition isDigit :: "char \<Rightarrow> bool" where
  "isDigit c = (48 \<le> (of_char c :: nat) \<and> (of_char c :: nat) \<le> 57)"

definition digitVal :: "char \<Rightarrow> int" where
  "digitVal c = of_char c - 48"

definition ParseUint :: "string \<Rightarrow> int option" where
  "ParseUint s =
     (if s = [] \<or> \<not> list_all isDigit s then None
      else Some (foldl (\<lambda>n c. 10 * n + digitVal c) 0 s))"

definition ParseInt :: "string \<Rightarrow> int option" where
  "ParseInt s =
     (if s = [] then None
      else
        let neg = (hd s = CHR ''-'');
            body = (if hd s = CHR ''+'' \<or> hd s = CHR ''-'' then tl s else s)
        in case ParseUint body of
             None \<Rightarrow> None
           | Some un \<Rightarrow>
               if \<not> neg \<and> 9223372036854775808 \<le> un then None
               else if neg \<and> 9223372036854775808 < un then None
               else Some (if neg then - un else un))"

definition Sscanf_d :: "string \<Rightarrow> int option" where
  "Sscanf_d str =
     (case SkipSpace str of
        None \<Rightarrow> None
      | Some s \<Rightarrow>
          if s = [] then None
          else
            let sign = (if hd s = CHR ''+'' \<or> hd s = CHR ''-'' then [hd s] else []);
                tok = takeWhile (\<lambda>c. isDigit c \<or> c = CHR ''_'') (drop (length sign) s)
            in if tok = [] then None else ParseInt (sign @ tok))"

text \<open>\<open>fmt.Sprintf("%4d | ", n)\<close> for a positive \<open>n\<close>: decimal digits, right-aligned in four columns.\<close>

fun itoa :: "nat \<Rightarrow> string" where
  "itoa n = (if n < 10 then [char_of (48 + n)]
             else itoa (n div 10) @ [char_of (48 + n mod 10)])"

definition lineNumberStr :: "nat \<Rightarrow> string" where
  "lineNumberStr n = replicate (4 - length (itoa n)) (CHR '' '') @ itoa n @ '' | ''"

text \<open>
  The plain rendering used when the pager is not installed: the loop over the
  lines of the file, with the text built so far and the index \<open>i\<close> as state.  The
  marker of the target line is the arrow U+2192 (three bytes in UTF-8) and a blank.
\<close>

fun renderLines :: "os_env \<Rightarrow> int \<Rightarrow> string \<Rightarrow> nat \<Rightarrow> string list \<Rightarrow> string" where
  "renderLines E lineNumInt highlightedContent i [] = highlightedContent"
| "renderLines E lineNumInt highlightedContent i (line # lines) =
     renderLines E lineNumInt
       (if int (i + 1) = lineNumInt
        then highlightedContent @ [CHR 0xE2, CHR 0x86, CHR 0x92, CHR 0x20]
               @ lineNumberStr (i + 1) @ Render E line @ [LF]
        else highlightedContent @ ''  '' @ lineNumberStr (i + 1) @ line @ [LF])
       (i + 1) lines"

definition bat_argv_highlight :: "string \<Rightarrow> string \<Rightarrow> string list" where
  "bat_argv_highlight lineNo filepath =
     [''bat'', ''--color=always'', ''--style=full'', ''--highlight-line'', lineNo, filepath]"

definition bat_argv_plain :: "string \<Rightarrow> string list" where
  "bat_argv_plain filepath = [''bat'', ''--color=always'', ''--style=full'', filepath]"

definition loadFile :: "os_env \<Rightarrow> string \<Rightarrow> string \<Rightarrow> msg \<times> string list list" where
  "loadFile E filepath lineNo =
     (case Sscanf_d lineNo of
        None \<Rightarrow> (fileLoadedMsg [] (Some (''invalid line number: '' @ lineNo)), [])
      | Some lineNumInt \<Rightarrow>
          let r = CombinedOutput E (bat_argv_highlight lineNo filepath) in
          (case cmd_err r of
             None \<Rightarrow> (fileLoadedMsg (cmd_output r) None, [bat_argv_highlight lineNo filepath])
           | Some e \<Rightarrow>
               if Contains e ''executable file not found'' then
                 (case ReadFile E filepath of
                    Inl e' \<Rightarrow> (fileLoadedMsg [] (Some e'), [bat_argv_highlight lineNo filepath])
                  | Inr bytes \<Rightarrow>
                      (fileLoadedMsg (renderLines E lineNumInt [] 0 (Split bytes LF)) None,
                       [bat_argv_highlight lineNo filepath]))
               else
                 let r2 = CombinedOutput E (bat_argv_plain filepath) in
                 (case cmd_err r2 of
                    Some e2 \<Rightarrow>
                      (fileLoadedMsg [] (Some e2),
                       [bat_argv_highlight lineNo filepath, bat_argv_plain filepath])
                  | None \<Rightarrow>
                      (fileLoadedMsg (cmd_output r2) None,
                       [bat_argv_highlight lineNo filepath, bat_argv_plain filepath]))))"

section \<open>The application model\<close>

datatype tab = searchTab | resultsTab | fileTab

text \<open>\<open>(t + 1) % 3\<close> on the three tab constants 0, 1, 2.\<close>

fun nextTab :: "tab \<Rightarrow> tab" where
  "nextTab searchTab = resultsTab"
| "nextTab resultsTab = fileTab"
| "nextTab fileTab = searchTab"

text \<open>
  The commands \<open>Update\<close> returns.  \<open>executeRipgrep_cmd p d\<close> and
  \<open>loadFile_cmd f n\<close> are the closures \<open>executeRipgrep(p, d)\<close> and
  \<open>loadFile(f, n)\<close>, which the runtime runs later; \<open>widget_cmd\<close> is a command of
  the widget library.  A list of commands is \<open>tea.Batch\<close> of them, the empty
  list \<open>nil\<close>.
\<close>

datatype cmd =
    Quit
  | executeRipgrep_cmd string string
  | loadFile_cmd string string
  | widget_cmd nat

fun runCmd :: "os_env \<Rightarrow> cmd \<Rightarrow> (msg \<times> string list list) option" where
  "runCmd E (executeRipgrep_cmd pattern path) = Some (executeRipgrep E pattern path)"
| "runCmd E (loadFile_cmd filepath lineNo) = Some (loadFile E filepath lineNo)"
| "runCmd E c = None"

text \<open>
  A text input of the widget library: its text, its focus flag and its width are
  what the program reads and writes (\<open>Value()\<close>, \<open>Focus()\<close>, \<open>Blur()\<close>,
  \<open>Focused()\<close>, \<open>Width\<close>); the rest of the widget (cursor position, blink
  state) is the extension of the record, which only the library's own update
  touches.
\<close>

record textinput_Model =
  Value :: string
  focus :: bool
  Width :: int

definition Focus :: "'t textinput_Model_scheme \<Rightarrow> 't textinput_Model_scheme" where
  "Focus t = t\<lparr>focus := True\<rparr>"

definition Blur :: "'t textinput_Model_scheme \<Rightarrow> 't textinput_Model_scheme" where
  "Blur t = t\<lparr>focus := False\<rparr>"

definition Focused :: "'t textinput_Model_scheme \<Rightarrow> bool" where
  "Focused t = focus t"

text \<open>
  The list and the viewport of the widget library are not part of the program's
  source: their states are the type parameters \<open>'l\<close> and \<open>'v\<close>, and the
  operations the program calls on them, with the update functions of all three
  widgets, are the fields of this record.
\<close>

record ('t, 'l, 'v) widgets =
  textinput_New :: 't
  textinput_Update :: "msg \<Rightarrow> 't textinput_Model_scheme \<Rightarrow> 't textinput_Model_scheme \<times> cmd list"
  list_New :: 'l
  list_Items :: "'l \<Rightarrow> Item list"
  list_SelectedItem :: "'l \<Rightarrow> Item option"
  list_SetItems :: "Item list \<Rightarrow> 'l \<Rightarrow> 'l"
  list_SetSize :: "int \<Rightarrow> int \<Rightarrow> 'l \<Rightarrow> 'l"
  list_StartSpinner :: "'l \<Rightarrow> 'l \<times> cmd"
  list_Update :: "msg \<Rightarrow> 'l \<Rightarrow> 'l \<times> cmd list"
  viewport_New :: 'v
  viewport_SetContent :: "string \<Rightarrow> 'v \<Rightarrow> 'v"
  viewport_GotoTop :: "'v \<Rightarrow> 'v"
  viewport_SetWidth :: "int \<Rightarrow> 'v \<Rightarrow> 'v"
  viewport_SetHeight :: "int \<Rightarrow> 'v \<Rightarrow> 'v"
  viewport_Update :: "msg \<Rightarrow> 'v \<Rightarrow> 'v \<times> cmd list"

text \<open>
  The key bindings.  \<open>key.Matches\<close> holds when the key's name is one of the
  binding's keys.  The \<open>keymap\<close> field of the model is set to \<open>keys\<close> once and
  never assigned again, so the bindings are read from the constant; the \<open>tabs\<close>
  field (the three tab titles) is only read by \<open>View\<close> and left out.
\<close>

record keyMap =
  Search :: "string list"
  Search2 :: "string list"
  Enter :: "string list"
  Back :: "string list"
  QuitKey :: "string list"
  Help :: "string list"
  Tab :: "string list"
  InputNext :: "string list"
  InputPrev :: "string list"

definition keys :: keyMap where
  "keys = \<lparr>Search = [''ctrl+f''], Search2 = [''ctrl+s''], Enter = [''enter''],
           Back = [''esc''], QuitKey = [''ctrl+c'', ''q''], Help = [''?''],
           Tab = [''ctrl+t''], InputNext = [''tab''], InputPrev = [''shift+tab'']\<rparr>"

definition Matches :: "string \<Rightarrow> string list \<Rightarrow> bool" where
  "Matches k binding = (k \<in> set binding)"

record ('t, 'l, 'v) model =
  activeTab :: tab
  searchInput :: "'t textinput_Model_scheme"
  directoryInput :: "'t textinput_Model_scheme"
  searchResults :: 'l
  fileViewer :: 'v
  statusMessage :: string
  statusMessageType :: string
  width :: int
  height :: int
  showStatusBar :: bool
  ready :: bool
  help_ShowAll :: bool
  help_Width :: int
  currentPath :: string
  currentSearchPattern :: string

text \<open>\<open>cwd\<close> is the result of \<open>os.Getwd()\<close>, or \<open>"."\<close> when that fails.\<close>

definition initialModel :: "('t, 'l, 'v) widgets \<Rightarrow> string \<Rightarrow> ('t, 'l, 'v) model" where
  "initialModel W cwd =
     \<lparr>activeTab = searchTab,
      searchInput = \<lparr>Value = [], focus = True, Width = 80, \<dots> = textinput_New W\<rparr>,
      directoryInput = \<lparr>Value = [], focus = False, Width = 80, \<dots> = textinput_New W\<rparr>,
      searchResults = list_New W,
      fileViewer = viewport_New W,
      statusMessage = ''Welcome to LazyRG! Press Ctrl+F to search'',
      statusMessageType = ''info'',
      width = 0,
      height = 0,
      showStatusBar = True,
      ready = False,
      help_ShowAll = False,
      help_Width = 0,
      currentPath = cwd,
      currentSearchPattern = []\<rparr>"

section \<open>Update\<close>

text \<open>
  The branch taken for the \<open>InputNext\<close> key and, with the same body, for the
  \<open>InputPrev\<close> key.
\<close>

definition toggleInput :: "('t, 'l, 'v) model \<Rightarrow> ('t, 'l, 'v) model" where
  "toggleInput m =
     (if Focused (searchInput m)
      then m\<lparr>searchInput := Blur (searchInput m), directoryInput := Focus (directoryInput m)\<rparr>
      else m\<lparr>directoryInput := Blur (directoryInput m), searchInput := Focus (searchInput m)\<rparr>)"

text \<open>
  The first \<open>switch\<close> of \<open>Update\<close> on a key: \<open>Some\<close> is a \<open>return\<close> of that
  switch, \<open>None\<close> is falling out of it (no binding matched, or \<open>Enter\<close> had
  nothing to do) with the model as it was.
\<close>

definition handleKey ::
  "('t, 'l, 'v) widgets \<Rightarrow> ('t, 'l, 'v) model \<Rightarrow> string \<Rightarrow> (('t, 'l, 'v) model \<times> cmd list) option" where
  "handleKey W m k =
     (if Matches k (QuitKey keys) then Some (m, [Quit])
      else if Matches k (Help keys) then Some (m\<lparr>help_ShowAll := \<not> help_ShowAll m\<rparr>, [])
      else if Matches k (Tab keys) then
        (let m1 = m\<lparr>activeTab := nextTab (activeTab m)\<rparr> in
         case activeTab m1 of
           searchTab \<Rightarrow> Some (m1\<lparr>searchInput := Focus (searchInput m1)\<rparr>, [])
         | resultsTab \<Rightarrow>
             if list_Items W (searchResults m1) \<noteq> [] then
               (let (l, c) = list_StartSpinner W (searchResults m1)
                in Some (m1\<lparr>searchResults := l\<rparr>, [c]))
             else Some (m1, [])
         | fileTab \<Rightarrow> Some (m1, []))
      else if Matches k (Search keys) \<or> Matches k (Search2 keys) then
        (if activeTab m \<noteq> searchTab
         then Some (m\<lparr>activeTab := searchTab, searchInput := Focus (searchInput m)\<rparr>, [])
         else Some (m, []))
      else if Matches k (Back keys) then
        (case activeTab m of
           fileTab \<Rightarrow> Some (m\<lparr>activeTab := resultsTab\<rparr>, [])
         | resultsTab \<Rightarrow>
             Some (m\<lparr>activeTab := searchTab, searchInput := Focus (searchInput m)\<rparr>, [])
         | searchTab \<Rightarrow> Some (m, []))
      else if Matches k (Enter keys) then
        (case activeTab m of
           searchTab \<Rightarrow>
             if Value (searchInput m) \<noteq> [] then
               (let pattern = Value (searchInput m);
                    searchPath = (if Value (directoryInput m) \<noteq> []
                                  then Value (directoryInput m) else currentPath m)
                in Some (m\<lparr>currentSearchPattern := pattern,
                           activeTab := resultsTab,
                           statusMessage := ''Searching for: '' @ pattern @ '' in '' @ searchPath,
                           statusMessageType := ''info''\<rparr>,
                         [executeRipgrep_cmd pattern searchPath]))
             else None
         | resultsTab \<Rightarrow>
             if list_Items W (searchResults m) \<noteq> [] then
               (case list_SelectedItem W (searchResults m) of
                  Some item \<Rightarrow>
                    Some (m\<lparr>activeTab := fileTab,
                            statusMessage := ''Viewing file: '' @ fullPath item,
                            statusMessageType := ''info''\<rparr>,
                          [loadFile_cmd (fullPath item) (lineNum item)])
                | None \<Rightarrow> None)
             else None
         | fileTab \<Rightarrow> None)
      else None)"

text \<open>The second \<open>switch\<close>: the message goes to the widget of the active tab.\<close>

definition routeToInput ::
  "('t, 'l, 'v) widgets \<Rightarrow> ('t, 'l, 'v) model \<Rightarrow> msg \<Rightarrow> ('t, 'l, 'v) model \<times> cmd list" where
  "routeToInput W m msg =
     (if Focused (searchInput m)
      then (let (t, c) = textinput_Update W msg (searchInput m) in (m\<lparr>searchInput := t\<rparr>, c))
      else (let (t, c) = textinput_Update W msg (directoryInput m) in (m\<lparr>directoryInput := t\<rparr>, c)))"

definition routeToActive ::
  "('t, 'l, 'v) widgets \<Rightarrow> ('t, 'l, 'v) model \<Rightarrow> msg \<Rightarrow> ('t, 'l, 'v) model \<times> cmd list" where
  "routeToActive W m msg =
     (case activeTab m of
        searchTab \<Rightarrow>
          (case msg of
             KeyMsg k \<Rightarrow>
               if Matches k (InputNext keys) then (toggleInput m, [])
               else if Matches k (InputPrev keys) then (toggleInput m, [])
               else routeToInput W m msg
           | _ \<Rightarrow> routeToInput W m msg)
      | resultsTab \<Rightarrow>
          (let (l, c) = list_Update W msg (searchResults m) in (m\<lparr>searchResults := l\<rparr>, c))
      | fileTab \<Rightarrow>
          (let (v, c) = viewport_Update W msg (fileViewer m) in (m\<lparr>fileViewer := v\<rparr>, c)))"

definition Update ::
  "('t, 'l, 'v) widgets \<Rightarrow> ('t, 'l, 'v) model \<Rightarrow> msg \<Rightarrow> ('t, 'l, 'v) model \<times> cmd list" where
  "Update W m msg =
     (case msg of
        KeyMsg k \<Rightarrow>
          (case handleKey W m k of Some r \<Rightarrow> r | None \<Rightarrow> routeToActive W m msg)
      | searchFinishedMsg items e \<Rightarrow>
          (case e of
             Some detail \<Rightarrow>
               (m\<lparr>statusMessage := ''Error: '' @ detail, statusMessageType := ''error''\<rparr>, [])
           | None \<Rightarrow>
               (m\<lparr>statusMessage :=
                    (if length items = 0 then ''No results found''
                     else ''Found '' @ itoa (length items) @ '' results''),
                  statusMessageType := ''info'',
                  searchResults := list_SetItems W items (searchResults m)\<rparr>, []))
      | fileLoadedMsg body e \<Rightarrow>
          (case e of
             Some detail \<Rightarrow>
               (m\<lparr>statusMessage := ''Error loading file: '' @ detail,
                  statusMessageType := ''error'',
                  activeTab := resultsTab\<rparr>, [])
           | None \<Rightarrow>
               (m\<lparr>fileViewer := viewport_GotoTop W (viewport_SetContent W body (fileViewer m))\<rparr>,
                []))
      | WindowSizeMsg w h \<Rightarrow>
          (let availableHeight = h - 6 - 2 - 1 - 2;
               h' = (if help_ShowAll m then availableHeight - 4 else availableHeight)
           in (m\<lparr>width := w, height := h, ready := True,
                  searchInput := (searchInput m)\<lparr>Width := w - 30\<rparr>,
                  directoryInput := (directoryInput m)\<lparr>Width := w - 30\<rparr>,
                  searchResults := list_SetSize W (w - 4) h' (searchResults m),
                  fileViewer := viewport_GotoTop W
                     (viewport_SetHeight W h' (viewport_SetWidth W (w - 8) (fileViewer m))),
                  help_Width := w\<rparr>, []))
      | OtherMsg n \<Rightarrow> routeToActive W m msg)"

text \<open>The event loop: the messages are handled one at a time, in order.\<close>

fun run :: "('t, 'l, 'v) widgets \<Rightarrow> ('t, 'l, 'v) model \<Rightarrow> msg list \<Rightarrow> ('t, 'l, 'v) model" where
  "run W m [] = m"
| "run W m (e # es) = run W (fst (Update W m e)) es"

section \<open>The parsing rule in the specification's words\<close>







section \<open>Concrete inputs for running the model\<close>

text \<open>
  An environment in which every command line gets the same result and no file
  can be opened, and one in which the pager's line-marking invocation fails
  with \<open>exit status 1\<close> while every other command succeeds with the output given.
\<close>

definition constEnv :: "string \<Rightarrow> string option \<Rightarrow> os_env" where
  "constEnv out e =
     \<lparr>CombinedOutput = (\<lambda>argv. \<lparr>cmd_output = out, cmd_err = e\<rparr>),
      ReadFile = (\<lambda>p. Inl ''open: no such file or directory''),
      Render = (\<lambda>s. s)\<rparr>"




section \<open>Facts about the string helpers\<close>













lemma TrimSpace_Nil_iff: "(TrimSpace s = []) = (\<forall>c \<in> set s. isSpace c)"
proof -
  have "(dropWhile isSpace (rev (dropWhile isSpace s)) = []) = (dropWhile isSpace s = [])"
  proof (cases "dropWhile isSpace s = []")
    case True
    show ?thesis unfolding True by simp
  next
    case False
    then have "\<not> isSpace (hd (dropWhile isSpace s))" by (rule hd_dropWhile)
    moreover from False have "hd (dropWhile isSpace s) \<in> set (dropWhile isSpace s)"
      by (rule hd_in_set)
    ultimately have "\<not> (\<forall>x \<in> set (rev (dropWhile isSpace s)). isSpace x)"
      unfolding set_rev by blast
    then have "dropWhile isSpace (rev (dropWhile isSpace s)) \<noteq> []"
      unfolding dropWhile_eq_Nil_conv .
    with False show ?thesis by blast
  qed
  then have "(TrimSpace s = []) = (dropWhile isSpace s = [])" by (simp add: TrimSpace_def)
  then show ?thesis by simp
qed







lemma Contains_hd: "Contains s sub \<Longrightarrow> sub \<noteq> [] \<Longrightarrow> hd sub \<in> set s"
proof (induction s)
  case Nil
  then show ?case by simp
next
  case (Cons x xs)
  show ?case
  proof (cases "HasPrefix (x # xs) sub")
    case True
    with Cons.prems(2) have "hd sub = x"
      by (cases sub) (auto simp: HasPrefix_def)
    then show ?thesis by simp
  next
    case False
    with Cons show ?thesis by simp
  qed
qed

lemma blank_no_marker:
  assumes "TrimSpace s = []"
  shows "\<not> Contains s ''No such file or directory''"
proof
  assume "Contains s ''No such file or directory''"
  then have "hd ''No such file or directory'' \<in> set s" by (rule Contains_hd) simp
  then have "CHR ''N'' \<in> set s" by simp
  with assms have "isSpace (CHR ''N'')" by (simp add: TrimSpace_Nil_iff)
  then show False by (simp add: isSpace_def)
qed



lemma run_snoc: "run W m (es @ [e]) = fst (Update W (run W m es) e)"
  by (induction es arbitrary: m) simp_all

section \<open>Properties of the program\<close>

text \<open>
  Claim C1 (a search whose process fails with output that does not name a
  missing root completes with an error carrying the raw output).  The program
  has no such branch: inside \<open>if err != nil\<close> it returns for a missing root and
  for blank output only, and otherwise goes on to parse the output as matches.
  Here the search tool rejects the pattern \<open>(\<close> with exit status 2 and a
  four-line report; the completion is a success, and the first line of the
  report has become a match record.
\<close>

theorem executeRipgrep_failure_output_parsed:
  "executeRipgrep
     (constEnv (''rg: regex parse error:'' @ [LF] @ ''    ('' @ [LF] @ ''    ^'' @ [LF]
                @ ''error: unclosed group'' @ [LF]) (Some ''exit status 2''))
     ''('' ''.''
   = (searchFinishedMsg
        [\<lparr>fileName = ''rg'', lineNum = ''regex parse error'', content = [], fullPath = ''rg''\<rparr>]
        None,
      [rg_argv ''('' ''.''])"
  by code_simp

text \<open>
  Claim C2 (in every reachable state exactly one of the two inputs has the
  focus).  Coming back to the search tab focuses the pattern input without
  blurring the directory input, which the \<open>tab\<close> branch does do.  From the
  initial state, whatever the widget library does: \<open>tab\<close> moves the focus to the
  directory input, \<open>ctrl+t\<close> goes to the results tab, \<open>esc\<close> comes back, and
  both inputs are focused on the search tab.
\<close>

theorem focus_both_after_reentry:
  "activeTab (run W (initialModel W cwd) [KeyMsg ''tab'', KeyMsg ''ctrl+t'', KeyMsg ''esc''])
     = searchTab
   \<and> Focused (searchInput
        (run W (initialModel W cwd) [KeyMsg ''tab'', KeyMsg ''ctrl+t'', KeyMsg ''esc'']))
   \<and> Focused (directoryInput
        (run W (initialModel W cwd) [KeyMsg ''tab'', KeyMsg ''ctrl+t'', KeyMsg ''esc'']))"
  by (simp add: Update_def handleKey_def routeToActive_def toggleInput_def initialModel_def
      Matches_def keys_def Focused_def Focus_def Blur_def Let_def split: prod.splits)

text \<open>
  Claim C3: a \<open>fileLoadedMsg\<close> with an error sets the status to the error text
  with severity \<open>error\<close> and makes the results tab active, and changes nothing
  else; so after any sequence of messages from the initial state that ends with
  a failed load, the active tab is the results tab, not the file tab.
\<close>

theorem fileLoaded_error_returns_to_results:
  "Update W m (fileLoadedMsg body (Some detail)) =
     (m\<lparr>statusMessage := ''Error loading file: '' @ detail,
        statusMessageType := ''error'',
        activeTab := resultsTab\<rparr>, [])
   \<and> activeTab (run W (initialModel W cwd) (es @ [fileLoadedMsg body (Some detail)]))
       = resultsTab
   \<and> statusMessageType (run W (initialModel W cwd) (es @ [fileLoadedMsg body (Some detail)]))
       = ''error''"
  by (simp add: run_snoc Update_def)






text \<open>
  Claim C6: a search with a non-empty pattern whose process ends with an error
  and whose combined output is blank completes as a success with no matches.
\<close>

theorem executeRipgrep_blank_failure_is_empty_success:
  assumes "pattern \<noteq> []"
    and "cmd_err (CombinedOutput E (rg_argv pattern path)) \<noteq> None"
    and "TrimSpace (cmd_output (CombinedOutput E (rg_argv pattern path))) = []"
  shows "executeRipgrep E pattern path = (searchFinishedMsg [] None, [rg_argv pattern path])"
  using assms blank_no_marker [OF assms(3)] by (simp add: executeRipgrep_def Let_def)

theorem executeRipgrep_blank_failure_is_empty_success_witness:
  "''TODO'' \<noteq> []
   \<and> cmd_err (CombinedOutput (constEnv ('' '' @ [LF]) (Some ''exit status 1''))
        (rg_argv ''TODO'' ''.'')) \<noteq> None
   \<and> TrimSpace (cmd_output (CombinedOutput (constEnv ('' '' @ [LF]) (Some ''exit status 1''))
        (rg_argv ''TODO'' ''.''))) = []
   \<and> executeRipgrep (constEnv ('' '' @ [LF]) (Some ''exit status 1'')) ''TODO'' ''.''
       = (searchFinishedMsg [] None, [rg_argv ''TODO'' ''.''])"
proof -
  have h1: "''TODO'' \<noteq> []" by simp
  have h2: "cmd_err (CombinedOutput (constEnv ('' '' @ [LF]) (Some ''exit status 1''))
        (rg_argv ''TODO'' ''.'')) \<noteq> None"
    by (simp add: constEnv_def)
  have h3: "TrimSpace (cmd_output (CombinedOutput (constEnv ('' '' @ [LF]) (Some ''exit status 1''))
        (rg_argv ''TODO'' ''.''))) = []"
    by (simp add: constEnv_def TrimSpace_def isSpace_def LF_def)
  from executeRipgrep_blank_failure_is_empty_success [OF h1 h2 h3] h1 h2 h3
  show ?thesis by blast
qed



text \<open>
  Claim C8: a \<open>searchFinishedMsg\<close> with an error changes the status message and
  its severity and nothing else, and returns no command: the result list (the
  whole state of the list widget, so its items, cursor and filter) is the one
  from before, also along any run from the initial state.
\<close>

theorem searchFinished_error_frame:
  "Update W m (searchFinishedMsg items (Some detail)) =
     (m\<lparr>statusMessage := ''Error: '' @ detail, statusMessageType := ''error''\<rparr>, [])
   \<and> searchResults (fst (Update W m (searchFinishedMsg items (Some detail)))) = searchResults m
   \<and> searchResults (run W (initialModel W cwd) (es @ [searchFinishedMsg items (Some detail)]))
       = searchResults (run W (initialModel W cwd) es)"
  by (simp add: run_snoc Update_def)






end
